theory Spec2Isabelle
  imports Main
begin

section \<open>Data model\<close>

text \<open>
  The controllers of \<^verbatim>\<open>api/controllers/ActivityController.py\<close> work on four tables of the
  relational store: \<^verbatim>\<open>Activity\<close>, \<^verbatim>\<open>ActivityTemplate\<close>, \<^verbatim>\<open>ClassRoom\<close> and \<^verbatim>\<open>Team\<close>.
  Primary keys are natural numbers. An activity row carries its foreign key to the class
  and its many-to-many relation \<^verbatim>\<open>team_id\<close> as the list of the related teams' keys.
\<close>

type_synonym pk = nat

record activity =
  act_id :: pk
  title :: string
  description :: string
  classroom_id :: "pk option"
  team_id :: "pk list"
  due_date :: "string option"
  evaluation :: "int option"
  total_score :: "int option"
  submission_status :: bool

record activity_template =
  tpl_id :: pk
  tpl_title :: string
  tpl_description :: string
  tpl_due_date :: "string option"
  tpl_evaluation :: "int option"
  tpl_total_score :: "int option"

text \<open>
  Of \<^verbatim>\<open>ClassRoom\<close> and \<^verbatim>\<open>Team\<close> the controllers only ask whether a key exists, so these
  tables are the lists of their keys.
\<close>

record store =
  activities :: "activity list"
  templates :: "activity_template list"
  classrooms :: "pk list"
  teams :: "pk list"

text \<open>
  \<^verbatim>\<open>request.data\<close> of \<^verbatim>\<open>POST /activities\<close>. A key that is absent from the payload is
  \<^const>\<open>None\<close>.
\<close>

record activity_data =
  d_title :: string
  d_description :: string
  d_classroom_id :: "pk option"
  d_team_id :: "pk list option"
  d_due_date :: "string option"
  d_evaluation :: "int option"
  d_total_score :: "int option"

text \<open>\<^verbatim>\<open>request.data\<close> of \<^verbatim>\<open>POST /classes/{class_pk}/activities/from_template\<close>.\<close>

record from_template_data =
  template_id :: "pk option"
  team_ids :: "pk list option"
  r_due_date :: "string option"
  r_evaluation :: "int option"
  r_total_score :: "int option"

text \<open>
  A \<^verbatim>\<open>Response(data, status=...)\<close>: the body and the HTTP status. The serialized form of an
  activity or a template is the row itself.
\<close>

datatype body =
    Error string
  | SerializerErrors
  | ActivityData activity
  | ActivityList "activity list"
  | FromTemplate string activity activity_template

datatype response = Response body nat

fun status_code :: "response \<Rightarrow> nat" where
  "status_code (Response b st) = st"

fun response_body :: "response \<Rightarrow> body" where
  "response_body (Response b st) = b"

datatype orm_error = DoesNotExist string

text \<open>\<^verbatim>\<open>str(e)\<close> of a \<^verbatim>\<open>DoesNotExist\<close> raised by \<^verbatim>\<open>objects.get\<close>.\<close>

fun str :: "orm_error \<Rightarrow> string" where
  "str (DoesNotExist model) = model @ '' matching query does not exist.''"

section \<open>The object-relational mapper\<close>

text \<open>\<^verbatim>\<open>dict.get(key, default)\<close>.\<close>

fun dict_get :: "'a option \<Rightarrow> 'a \<Rightarrow> 'a" where
  "dict_get None dflt = dflt"
| "dict_get (Some v) dflt = v"

text \<open>
  \<^verbatim>\<open>Team.objects.filter(pk__in=team_ids)\<close> selects the rows of the table whose key is in the
  list. A \<^verbatim>\<open>filter\<close> never raises \<^verbatim>\<open>DoesNotExist\<close>: keys that match no row are dropped.
\<close>

definition Team_objects_filter_pk_in :: "store \<Rightarrow> pk list \<Rightarrow> orm_error + pk list" where
  "Team_objects_filter_pk_in s ids = Inr (filter (\<lambda>t. t \<in> set ids) (teams s))"

text \<open>\<^verbatim>\<open>ClassRoom.objects.filter(pk=class_pk).exists()\<close> and the same on \<^verbatim>\<open>Team\<close>.\<close>

definition ClassRoom_exists :: "store \<Rightarrow> pk \<Rightarrow> bool" where
  "ClassRoom_exists s c = (c \<in> set (classrooms s))"

definition Team_exists :: "store \<Rightarrow> pk \<Rightarrow> bool" where
  "Team_exists s t = (t \<in> set (teams s))"

text \<open>\<^verbatim>\<open>objects.get(pk=...)\<close> raises \<^verbatim>\<open>DoesNotExist\<close> when no row has the key.\<close>

definition ClassRoom_objects_get :: "store \<Rightarrow> pk \<Rightarrow> orm_error + pk" where
  "ClassRoom_objects_get s c =
     (if c \<in> set (classrooms s) then Inr c else Inl (DoesNotExist ''ClassRoom''))"

definition ActivityTemplate_objects_get :: "store \<Rightarrow> pk \<Rightarrow> orm_error + activity_template" where
  "ActivityTemplate_objects_get s k =
     (case find (\<lambda>t. tpl_id t = k) (templates s) of
        None \<Rightarrow> Inl (DoesNotExist ''ActivityTemplate'')
      | Some t \<Rightarrow> Inr t)"

text \<open>The key the store gives to the next inserted activity: one that no row has.\<close>

definition new_pk :: "store \<Rightarrow> pk" where
  "new_pk s = Suc (fold max (map act_id (activities s)) 0)"

text \<open>
  \<^verbatim>\<open>activity.save()\<close>: writes the row with the instance's key, inserting it when the table
  has no such row.
\<close>

definition Activity_save :: "store \<Rightarrow> activity \<Rightarrow> store" where
  "Activity_save s a =
     (if act_id a \<in> set (map act_id (activities s))
      then s\<lparr>activities := map (\<lambda>b. if act_id b = act_id a then a else b) (activities s)\<rparr>
      else s\<lparr>activities := activities s @ [a]\<rparr>)"

text \<open>
  Modelled from the spec: \<^verbatim>\<open>ActivitySerializer.save\<close> (api/serializers is not among
  the sources at hand). The spec: the create operation "persists the activity, then resolves
  and attaches the teams", and "the activity row is already persisted before team
  resolution is attempted", leaving on failure "an orphaned activity with no teams
  attached". So saving inserts a new row holding the payload's fields and no team.
\<close>

definition serializer_save :: "store \<Rightarrow> activity_data \<Rightarrow> activity \<times> store" where
  "serializer_save s data =
     (let a = \<lparr>act_id = new_pk s, title = d_title data, description = d_description data,
                classroom_id = d_classroom_id data, team_id = [],
                due_date = d_due_date data, evaluation = d_evaluation data,
                total_score = d_total_score data, submission_status = False\<rparr>
      in (a, s\<lparr>activities := activities s @ [a]\<rparr>))"

text \<open>
  Modelled from the spec: \<^verbatim>\<open>Activity.create_activity_from_template\<close> (api/models is not
  among the sources at hand). The spec: a template is a "blueprint with the same
  descriptive fields as Activity minus class/team/submission state", and instantiation
  "clones template fields into a new activity" and "copies fields rather than
  referencing the template"; the overrides are applied "before persisting".
\<close>

definition create_activity_from_template :: "store \<Rightarrow> activity_template \<Rightarrow> activity" where
  "create_activity_from_template s template =
     \<lparr>act_id = new_pk s, title = tpl_title template, description = tpl_description template,
      classroom_id = None, team_id = [],
      due_date = tpl_due_date template, evaluation = tpl_evaluation template,
      total_score = tpl_total_score template, submission_status = False\<rparr>"

section \<open>ActivityController\<close>

text \<open>
  \<^verbatim>\<open>create\<close>. The serializer's schema validation \<^verbatim>\<open>is_valid\<close> belongs to the serializer
  class, which is not among the sources at hand: it is a parameter. The function returns
  the response and the store the request leaves behind. \<^verbatim>\<open>activity.team_id.set(teams)\<close>
  replaces the relation of the instance by the selected rows and \<^verbatim>\<open>activity.save()\<close>
  writes the instance; \<^verbatim>\<open>serializer.data\<close> is then read from the instance. The handler
  of \<^verbatim>\<open>Team.DoesNotExist\<close> is the \<^const>\<open>Inl\<close> branch.
\<close>

definition ActivityController_create ::
  "(activity_data \<Rightarrow> bool) \<Rightarrow> store \<Rightarrow> activity_data \<Rightarrow> response \<times> store" where
  "ActivityController_create is_valid s data =
     (if is_valid data then
        (case serializer_save s data of (activity, s1) \<Rightarrow>
           let team_ids = dict_get (d_team_id data) [] in
           if team_ids \<noteq> [] then
             (case Team_objects_filter_pk_in s1 team_ids of
                Inr team_rows \<Rightarrow>
                  let activity' = activity\<lparr>team_id := team_rows\<rparr>;
                      s2 = Activity_save s1 activity'
                  in (Response (ActivityData activity') 201, s2)
              | Inl (DoesNotExist m) \<Rightarrow>
                  (Response (Error ''One or more teams not found'') 404, s1))
           else (Response (Error ''Invalid or empty Team IDs provided'') 400, s1))
      else (Response SerializerErrors 400, s))"

text \<open>
  \<^verbatim>\<open>list\<close>. The router passes \<^verbatim>\<open>class_pk\<close> as the non-empty text of a path segment, which
  Python takes as true; the model keeps the key that the text denotes, and \<^const>\<open>None\<close>
  for a parameter that is not given. A response without a status has status 200.
\<close>

definition ActivityController_list :: "store \<Rightarrow> pk option \<Rightarrow> response" where
  "ActivityController_list s class_pk =
     (case class_pk of
        Some class_id \<Rightarrow>
          Response (ActivityList (filter (\<lambda>a. classroom_id a = Some class_id) (activities s))) 200
      | None \<Rightarrow> Response (Error ''Class ID not provided'') 400)"

text \<open>
  \<^verbatim>\<open>create_from_template\<close>. The three overrides are guarded by Python's truth test:
  an empty text and the number 0 are false, as an absent key is.
\<close>

definition truthy_str :: "string option \<Rightarrow> bool" where
  "truthy_str v = (case v of None \<Rightarrow> False | Some x \<Rightarrow> x \<noteq> [])"

definition truthy_int :: "int option \<Rightarrow> bool" where
  "truthy_int v = (case v of None \<Rightarrow> False | Some x \<Rightarrow> x \<noteq> 0)"

definition ActivityController_create_from_template ::
  "store \<Rightarrow> pk option \<Rightarrow> from_template_data \<Rightarrow> response \<times> store" where
  "ActivityController_create_from_template s class_pk data =
     (let tids = dict_get (team_ids data) [] in
      case (template_id data, class_pk) of
        (Some tid, Some cpk) \<Rightarrow>
          (case ClassRoom_objects_get s cpk of
             Inl e \<Rightarrow> (Response (Error (str e)) 404, s)
           | Inr class_obj \<Rightarrow>
          (case ActivityTemplate_objects_get s tid of
             Inl e \<Rightarrow> (Response (Error (str e)) 404, s)
           | Inr template \<Rightarrow>
          (let new_activity = create_activity_from_template s template in
           case (if tids \<noteq> [] then
                   (case Team_objects_filter_pk_in s tids of
                      Inr team_rows \<Rightarrow> Inr (new_activity\<lparr>team_id := team_rows\<rparr>)
                    | Inl e \<Rightarrow> Inl e)
                 else Inr new_activity) of
             Inl (DoesNotExist m) \<Rightarrow> (Response (Error ''One or more teams not found'') 404, s)
           | Inr a1 \<Rightarrow>
               let a2 = (if truthy_str (r_due_date data) then a1\<lparr>due_date := r_due_date data\<rparr> else a1);
                   a3 = (if truthy_int (r_evaluation data) then a2\<lparr>evaluation := r_evaluation data\<rparr> else a2);
                   a4 = (if truthy_int (r_total_score data) then a3\<lparr>total_score := r_total_score data\<rparr> else a3);
                   a5 = a4\<lparr>classroom_id := Some class_obj\<rparr>
               in (Response (FromTemplate ''Activity created from template'' a5 template) 201,
                   Activity_save s a5))))
      | _ \<Rightarrow> (Response (Error ''Template ID or Class ID not provided'') 400, s))"

section \<open>TeamActivitiesController\<close>

definition TeamActivitiesController_list :: "store \<Rightarrow> pk option \<Rightarrow> pk option \<Rightarrow> response" where
  "TeamActivitiesController_list s class_pk team_pk =
     (case (class_pk, team_pk) of
        (Some c, Some t) \<Rightarrow>
          if \<not> ClassRoom_exists s c then Response (Error ''Class not found'') 404
          else if \<not> Team_exists s t then Response (Error ''Team not found'') 404
          else Response (ActivityList
                 (filter (\<lambda>a. classroom_id a = Some c \<and> t \<in> set (team_id a)) (activities s))) 200
      | (_, None) \<Rightarrow> Response (Error ''Team ID not provided'') 400
      | (None, Some t) \<Rightarrow> Response (Error ''Class ID not provided'') 400)"

definition submitted_activities :: "store \<Rightarrow> pk option \<Rightarrow> pk option \<Rightarrow> response" where
  "submitted_activities s class_pk team_pk =
     (case (class_pk, team_pk) of
        (Some c, Some t) \<Rightarrow>
          if \<not> ClassRoom_exists s c then Response (Error ''Class not found'') 404
          else if \<not> Team_exists s t then Response (Error ''Team not found'') 404
          else Response (ActivityList
                 (filter (\<lambda>a. classroom_id a = Some c \<and> t \<in> set (team_id a)
                               \<and> submission_status a = True) (activities s))) 200
      | (_, None) \<Rightarrow> Response (Error ''Team ID not provided'') 400
      | (None, Some t) \<Rightarrow> Response (Error ''Class ID not provided'') 400)"


section \<open>Example data\<close>

definition quiz :: activity where
  "quiz = \<lparr>act_id = 1, title = ''Quiz'', description = ''Week 1'', classroom_id = Some 1,
     team_id = [1], due_date = None, evaluation = None, total_score = Some 100,
     submission_status = False\<rparr>"

definition essay :: activity where
  "essay = \<lparr>act_id = 2, title = ''Essay'', description = ''Week 2'', classroom_id = Some 1,
     team_id = [1, 2], due_date = Some ''2024-01-31'', evaluation = Some 90,
     total_score = Some 100, submission_status = True\<rparr>"

definition lab :: activity_template where
  "lab = \<lparr>tpl_id = 1, tpl_title = ''Lab'', tpl_description = ''Report'',
     tpl_due_date = Some ''2024-02-01'', tpl_evaluation = None, tpl_total_score = Some 100\<rparr>"

text \<open>Two classes, three teams, two activities of class 1 and one template.\<close>

definition school :: store where
  "school = \<lparr>activities = [quiz, essay], templates = [lab], classrooms = [1, 2],
     teams = [1, 2, 3]\<rparr>"

text \<open>A payload of \<^verbatim>\<open>POST /activities\<close> with the given \<^verbatim>\<open>team_id\<close> entry.\<close>

definition poster :: "pk list option \<Rightarrow> activity_data" where
  "poster ids = \<lparr>d_title = ''Poster'', d_description = ''Week 3'', d_classroom_id = Some 2,
     d_team_id = ids, d_due_date = None, d_evaluation = None, d_total_score = Some 100\<rparr>"

text \<open>A schema validation: the title and the class are required.\<close>

definition schema_ok :: "activity_data \<Rightarrow> bool" where
  "schema_ok d = (d_title d \<noteq> [] \<and> d_classroom_id d \<noteq> None)"

text \<open>A payload of \<^verbatim>\<open>from_template\<close> whose two numeric overrides are present and zero.\<close>

definition lab_request :: from_template_data where
  "lab_request = \<lparr>template_id = Some 1, team_ids = Some [2], r_due_date = Some ''2024-03-15'',
     r_evaluation = Some 0, r_total_score = Some 0\<rparr>"

section \<open>Keys and rows\<close>

lemma fold_max_lower: "(n::nat) \<le> fold max xs n"
  by (induction xs arbitrary: n) (auto intro: order_trans [OF max.cobounded2])

lemma fold_max_upper: "x \<in> set xs \<Longrightarrow> (x::nat) \<le> fold max xs n"
proof (induction xs arbitrary: n)
  case Nil
  then show ?case by simp
next
  case (Cons y ys)
  show ?case
  proof (cases "x = y")
    case True
    have "y \<le> max y n" by simp
    also have "\<dots> \<le> fold max ys (max y n)" by (rule fold_max_lower)
    finally show ?thesis using True by simp
  next
    case False
    with Cons.prems have "x \<in> set ys" by simp
    then show ?thesis using Cons.IH by simp
  qed
qed

lemma new_pk_fresh: "new_pk s \<notin> set (map act_id (activities s))"
proof
  assume "new_pk s \<in> set (map act_id (activities s))"
  then have "new_pk s \<le> fold max (map act_id (activities s)) 0"
    by (rule fold_max_upper)
  then show False by (simp add: new_pk_def)
qed

lemma new_pk_row: "a \<in> set (activities s) \<Longrightarrow> act_id a \<noteq> new_pk s"
  using new_pk_fresh [of s] by force

text \<open>Saving an instance whose row was just inserted rewrites that row only.\<close>

lemma Activity_save_appended:
  assumes "act_id a = new_pk s" and "act_id a' = new_pk s"
  shows "Activity_save (s\<lparr>activities := activities s @ [a]\<rparr>) a'
           = s\<lparr>activities := activities s @ [a']\<rparr>"
proof -
  have "map (\<lambda>b. if act_id b = new_pk s then a' else b) (activities s) = activities s"
    by (rule map_idI) (simp add: new_pk_row)
  then show ?thesis using assms by (simp add: Activity_save_def)
qed

lemma Activity_save_new:
  "act_id a = new_pk s \<Longrightarrow> Activity_save s a = s\<lparr>activities := activities s @ [a]\<rparr>"
  using new_pk_fresh [of s] by (simp add: Activity_save_def)

lemma serializer_save_row:
  "\<exists>a. serializer_save s data = (a, s\<lparr>activities := activities s @ [a]\<rparr>)
       \<and> act_id a = new_pk s \<and> team_id a = [] \<and> title a = d_title data
       \<and> description a = d_description data \<and> classroom_id a = d_classroom_id data"
  by (simp add: serializer_save_def Let_def)

text \<open>
  The handler of \<^verbatim>\<open>Team.DoesNotExist\<close> in \<^verbatim>\<open>create\<close> is never entered: no request is
  answered with 404.
\<close>

lemma create_never_404:
  "status_code (fst (ActivityController_create is_valid s data)) \<noteq> 404"
  by (simp add: ActivityController_create_def serializer_save_def Team_objects_filter_pk_in_def
      Let_def)

section \<open>Creating an activity\<close>

text \<open>
  C7: a create request whose \<^verbatim>\<open>team_id\<close> list is empty (or absent) is answered with 400,
  whatever the schema validation says about the payload.
\<close>

theorem create_empty_team_list_400:
  assumes "dict_get (d_team_id data) [] = []"
  shows "status_code (fst (ActivityController_create is_valid s data)) = 400"
  using assms by (simp add: ActivityController_create_def serializer_save_def Let_def)

theorem create_empty_team_list_400_witness:
  "dict_get (d_team_id (poster (Some []))) [] = []
   \<and> status_code (fst (ActivityController_create schema_ok school (poster (Some [])))) = 400
   \<and> status_code (fst (ActivityController_create (\<lambda>d. False) school (poster None))) = 400"
  using create_empty_team_list_400 [of "poster (Some [])" schema_ok school]
    create_empty_team_list_400 [of "poster None" "\<lambda>d. False" school]
  by (simp add: poster_def)

text \<open>
  C10: when the payload passes schema validation and its \<^verbatim>\<open>team_id\<close> list is empty, the
  activity is saved before the list is looked at: the 400 response leaves the store with
  one more row, a new activity with no team.
\<close>

theorem create_empty_team_list_persists:
  assumes "is_valid data" and "dict_get (d_team_id data) [] = []"
  shows "\<exists>a. ActivityController_create is_valid s data
           = (Response (Error ''Invalid or empty Team IDs provided'') 400,
              s\<lparr>activities := activities s @ [a]\<rparr>)
         \<and> team_id a = [] \<and> act_id a \<notin> set (map act_id (activities s))
         \<and> title a = d_title data"
proof -
  obtain a where sv: "serializer_save s data = (a, s\<lparr>activities := activities s @ [a]\<rparr>)"
    and a: "act_id a = new_pk s" "team_id a = []" "title a = d_title data"
    using serializer_save_row [of s data] by blast
  have "ActivityController_create is_valid s data
          = (Response (Error ''Invalid or empty Team IDs provided'') 400,
             s\<lparr>activities := activities s @ [a]\<rparr>)"
    using assms by (simp add: ActivityController_create_def sv)
  moreover have "act_id a \<notin> set (map act_id (activities s))"
    using new_pk_fresh [of s] a(1) by simp
  ultimately show ?thesis using a by blast
qed

theorem create_empty_team_list_persists_witness:
  "schema_ok (poster (Some [])) \<and> dict_get (d_team_id (poster (Some []))) [] = []
   \<and> (\<exists>a. ActivityController_create schema_ok school (poster (Some []))
           = (Response (Error ''Invalid or empty Team IDs provided'') 400,
              school\<lparr>activities := activities school @ [a]\<rparr>)
         \<and> team_id a = [] \<and> act_id a \<notin> set (map act_id (activities school))
         \<and> title a = d_title (poster (Some [])))"
  using create_empty_team_list_persists [of schema_ok "poster (Some [])" school]
  by (simp add: schema_ok_def poster_def)

text \<open>
  C4: when the payload passes schema validation and its \<^verbatim>\<open>team_id\<close> list is non-empty and
  names existing teams only, the request is answered with 201 and the created activity,
  whose teams are exactly the requested ones; the store gains that activity as a new row.
\<close>

theorem create_valid_teams_201:
  assumes "is_valid data" and "d_team_id data = Some ids" and "ids \<noteq> []"
    and "set ids \<subseteq> set (teams s)"
  shows "\<exists>a. ActivityController_create is_valid s data
           = (Response (ActivityData a) 201, s\<lparr>activities := activities s @ [a]\<rparr>)
         \<and> set (team_id a) = set ids \<and> act_id a \<notin> set (map act_id (activities s))"
proof -
  obtain a0 where sv: "serializer_save s data = (a0, s\<lparr>activities := activities s @ [a0]\<rparr>)"
    and id0: "act_id a0 = new_pk s"
    using serializer_save_row [of s data] by blast
  define a where "a = a0\<lparr>team_id := filter (\<lambda>t. t \<in> set ids) (teams s)\<rparr>"
  have ida: "act_id a = new_pk s" by (simp add: a_def id0)
  have sav: "Activity_save (s\<lparr>activities := activities s @ [a0]\<rparr>) a
               = s\<lparr>activities := activities s @ [a]\<rparr>"
    using id0 ida by (rule Activity_save_appended)
  have "ActivityController_create is_valid s data
           = (Response (ActivityData a) 201, s\<lparr>activities := activities s @ [a]\<rparr>)"
    using assms(1-3) sav
    by (simp add: ActivityController_create_def sv Team_objects_filter_pk_in_def a_def [symmetric])
  moreover have "set (team_id a) = set ids" using assms(4) by (auto simp: a_def)
  moreover have "act_id a \<notin> set (map act_id (activities s))"
    using new_pk_fresh [of s] ida by simp
  ultimately show ?thesis by blast
qed

theorem create_valid_teams_201_witness:
  "schema_ok (poster (Some [3, 1])) \<and> d_team_id (poster (Some [3, 1])) = Some [3, 1]
   \<and> [3, 1::nat] \<noteq> [] \<and> set [3, 1] \<subseteq> set (teams school)
   \<and> (\<exists>a. ActivityController_create schema_ok school (poster (Some [3, 1]))
           = (Response (ActivityData a) 201, school\<lparr>activities := activities school @ [a]\<rparr>)
         \<and> set (team_id a) = set [3, 1] \<and> act_id a \<notin> set (map act_id (activities school)))"
  using create_valid_teams_201 [of schema_ok "poster (Some [3, 1])" "[3, 1]" school]
  by (simp add: schema_ok_def poster_def school_def)

text \<open>
  C1: a create request that passes schema validation and names a team that does not exist
  is to be answered with 404, the activity staying in the store with no team. The code
  run on such a request: team 9 does not exist, yet the answer is 201 and the activity is
  stored with team 1 attached.
\<close>

theorem create_missing_team_still_201:
  "schema_ok (poster (Some [1, 9])) \<and> \<not> Team_exists school 9
   \<and> ActivityController_create schema_ok school (poster (Some [1, 9]))
     = (Response (ActivityData
          \<lparr>act_id = 3, title = ''Poster'', description = ''Week 3'', classroom_id = Some 2,
           team_id = [1], due_date = None, evaluation = None, total_score = Some 100,
           submission_status = False\<rparr>) 201,
        school\<lparr>activities := activities school @
          [\<lparr>act_id = 3, title = ''Poster'', description = ''Week 3'', classroom_id = Some 2,
            team_id = [1], due_date = None, evaluation = None, total_score = Some 100,
            submission_status = False\<rparr>]\<rparr>)"
  by (simp add: schema_ok_def poster_def school_def quiz_def essay_def Team_exists_def
      ActivityController_create_def serializer_save_def Team_objects_filter_pk_in_def
      Activity_save_def new_pk_def Let_def)

section \<open>Listing the activities of a class\<close>

text \<open>
  C8: listing by class answers 400 when the class id is absent; otherwise it answers 200
  with a list that holds exactly the activities whose \<^verbatim>\<open>classroom_id\<close> is the given id,
  none of them more often than the store does, and that is empty when no activity matches.
\<close>

theorem list_by_class:
  "ActivityController_list s None = Response (Error ''Class ID not provided'') 400
   \<and> (\<exists>acts. ActivityController_list s (Some c) = Response (ActivityList acts) 200
         \<and> set acts = {a \<in> set (activities s). classroom_id a = Some c}
         \<and> (\<forall>a. count_list acts a \<le> count_list (activities s) a)
         \<and> ((\<forall>a \<in> set (activities s). classroom_id a \<noteq> Some c) \<longrightarrow> acts = []))"
proof -
  let ?acts = "filter (\<lambda>a. classroom_id a = Some c) (activities s)"
  have "\<And>a xs. count_list (filter (\<lambda>a. classroom_id a = Some c) xs) a
                  \<le> count_list xs (a::activity)"
    subgoal for a xs by (induction xs) auto
    done
  moreover have "(\<forall>a \<in> set (activities s). classroom_id a \<noteq> Some c) \<longrightarrow> ?acts = []"
    by (simp add: filter_empty_conv)
  ultimately show ?thesis
    by (auto simp add: ActivityController_list_def)
qed

theorem list_by_class_witness:
  "ActivityController_list school (Some 1) = Response (ActivityList [quiz, essay]) 200
   \<and> list_all (\<lambda>a. classroom_id a \<noteq> Some 2) (activities school)
   \<and> ActivityController_list school (Some 2) = Response (ActivityList []) 200
   \<and> ActivityController_list school None = Response (Error ''Class ID not provided'') 400"
  using list_by_class [of school 1] list_by_class [of school 2]
  by (simp add: ActivityController_list_def school_def quiz_def essay_def)

text \<open>
  C2 as stated fails: class 5 does not exist, and listing its activities is answered with
  200 and an empty list, the answer the same request gets once the class exists.
\<close>

theorem list_by_class_unchecked:
  "\<not> ClassRoom_exists school 5
   \<and> ActivityController_list school (Some 5) = Response (ActivityList []) 200
   \<and> ActivityController_list (school\<lparr>classrooms := 5 # classrooms school\<rparr>) (Some 5)
       = Response (ActivityList []) 200"
  by (simp add: ActivityController_list_def ClassRoom_exists_def school_def quiz_def essay_def)

text \<open>
  C2, amended: the two team-scoped listings and \<^verbatim>\<open>create_from_template\<close> check that the
  class exists before anything else and answer 404 when it does not, the latter leaving
  the store as it was. Listing by class makes no such check: its answer is 200 with the
  activities whose \<^verbatim>\<open>classroom_id\<close> is the given id, whatever the table of classes holds.
\<close>

theorem class_existence_checked:
  "(\<not> ClassRoom_exists s c \<longrightarrow>
      TeamActivitiesController_list s (Some c) (Some t) = Response (Error ''Class not found'') 404
    \<and> submitted_activities s (Some c) (Some t) = Response (Error ''Class not found'') 404
    \<and> (template_id data \<noteq> None \<longrightarrow>
         ActivityController_create_from_template s (Some c) data
           = (Response (Error ''ClassRoom matching query does not exist.'') 404, s)))
   \<and> ActivityController_list (s\<lparr>classrooms := cs\<rparr>) (Some c)
       = Response (ActivityList (filter (\<lambda>a. classroom_id a = Some c) (activities s))) 200"
  by (auto simp add: TeamActivitiesController_list_def submitted_activities_def
      ActivityController_create_from_template_def ClassRoom_objects_get_def
      ClassRoom_exists_def ActivityController_list_def)

theorem class_existence_checked_witness:
  "\<not> ClassRoom_exists school 5 \<and> template_id lab_request \<noteq> None
   \<and> TeamActivitiesController_list school (Some 5) (Some 1) = Response (Error ''Class not found'') 404
   \<and> submitted_activities school (Some 5) (Some 1) = Response (Error ''Class not found'') 404
   \<and> ActivityController_create_from_template school (Some 5) lab_request
       = (Response (Error ''ClassRoom matching query does not exist.'') 404, school)
   \<and> ActivityController_list (school\<lparr>classrooms := []\<rparr>) (Some 1)
       = Response (ActivityList [quiz, essay]) 200"
  using class_existence_checked [of school 5 1 lab_request "[]"]
    class_existence_checked [of school 1 1 lab_request "[]"]
  by (simp add: ClassRoom_exists_def lab_request_def school_def quiz_def essay_def)

section \<open>Team-scoped listings\<close>

text \<open>
  C5: when the class and the team exist, \<^verbatim>\<open>submitted_activities\<close> answers 200 with a list
  in which every activity is submitted, belongs to the class and to the team; no activity
  of that class and team that is not submitted is in the list, and every submitted one is.
\<close>

theorem submitted_activities_only:
  assumes "ClassRoom_exists s c" and "Team_exists s t"
  shows "\<exists>acts. submitted_activities s (Some c) (Some t) = Response (ActivityList acts) 200
           \<and> (\<forall>a \<in> set acts. submission_status a \<and> classroom_id a = Some c
                   \<and> t \<in> set (team_id a) \<and> a \<in> set (activities s))
           \<and> (\<forall>a \<in> set (activities s). classroom_id a = Some c \<and> t \<in> set (team_id a)
                   \<and> \<not> submission_status a \<longrightarrow> a \<notin> set acts)
           \<and> (\<forall>a \<in> set (activities s). classroom_id a = Some c \<and> t \<in> set (team_id a)
                   \<and> submission_status a \<longrightarrow> a \<in> set acts)"
  using assms by (simp add: submitted_activities_def)

theorem submitted_activities_only_witness:
  "ClassRoom_exists school 1 \<and> Team_exists school 1
   \<and> classroom_id quiz = Some 1 \<and> 1 \<in> set (team_id quiz) \<and> \<not> submission_status quiz
   \<and> quiz \<in> set (activities school)
   \<and> submitted_activities school (Some 1) (Some 1) = Response (ActivityList [essay]) 200"
  using submitted_activities_only [of school 1 1]
  by (simp add: submitted_activities_def ClassRoom_exists_def Team_exists_def school_def
      quiz_def essay_def)

text \<open>
  C6: with both ids given, each team-scoped listing answers 404 and names the class when
  the class does not exist, answers 404 and names the team when the class exists and the
  team does not, and answers 200 with an empty list when both exist and no activity
  belongs to both.
\<close>

theorem team_scoped_listing_responses:
  "(\<not> ClassRoom_exists s c \<longrightarrow>
      TeamActivitiesController_list s (Some c) (Some t) = Response (Error ''Class not found'') 404
    \<and> submitted_activities s (Some c) (Some t) = Response (Error ''Class not found'') 404)
   \<and> (ClassRoom_exists s c \<and> \<not> Team_exists s t \<longrightarrow>
      TeamActivitiesController_list s (Some c) (Some t) = Response (Error ''Team not found'') 404
    \<and> submitted_activities s (Some c) (Some t) = Response (Error ''Team not found'') 404)
   \<and> (ClassRoom_exists s c \<and> Team_exists s t
      \<and> (\<forall>a \<in> set (activities s). \<not> (classroom_id a = Some c \<and> t \<in> set (team_id a))) \<longrightarrow>
      TeamActivitiesController_list s (Some c) (Some t) = Response (ActivityList []) 200
    \<and> submitted_activities s (Some c) (Some t) = Response (ActivityList []) 200)"
proof -
  have "filter (\<lambda>a. classroom_id a = Some c \<and> t \<in> set (team_id a)) (activities s) = []
        \<and> filter (\<lambda>a. classroom_id a = Some c \<and> t \<in> set (team_id a)
                     \<and> submission_status a = True) (activities s) = []"
    if "\<forall>a \<in> set (activities s). \<not> (classroom_id a = Some c \<and> t \<in> set (team_id a))"
    using that by (auto simp add: filter_empty_conv)
  then show ?thesis
    by (simp add: TeamActivitiesController_list_def submitted_activities_def)
qed

theorem team_scoped_listing_responses_witness:
  "\<not> ClassRoom_exists school 5
   \<and> TeamActivitiesController_list school (Some 5) (Some 1) = Response (Error ''Class not found'') 404
   \<and> submitted_activities school (Some 5) (Some 1) = Response (Error ''Class not found'') 404
   \<and> ClassRoom_exists school 1 \<and> \<not> Team_exists school 7
   \<and> TeamActivitiesController_list school (Some 1) (Some 7) = Response (Error ''Team not found'') 404
   \<and> submitted_activities school (Some 1) (Some 7) = Response (Error ''Team not found'') 404
   \<and> Team_exists school 3
   \<and> list_all (\<lambda>a. \<not> (classroom_id a = Some 1 \<and> 3 \<in> set (team_id a))) (activities school)
   \<and> TeamActivitiesController_list school (Some 1) (Some 3) = Response (ActivityList []) 200
   \<and> submitted_activities school (Some 1) (Some 3) = Response (ActivityList []) 200"
  using team_scoped_listing_responses [of school 5 1]
    team_scoped_listing_responses [of school 1 7]
    team_scoped_listing_responses [of school 1 3]
  by (simp add: ClassRoom_exists_def Team_exists_def school_def quiz_def essay_def)

section \<open>Creating an activity from a template\<close>

text \<open>
  C9: \<^verbatim>\<open>create_from_template\<close> leaves the table of templates as it was, on every request.
\<close>

theorem create_from_template_frame:
  "templates (snd (ActivityController_create_from_template s class_pk data)) = templates s"
  by (simp add: ActivityController_create_from_template_def Activity_save_def Let_def
      Team_objects_filter_pk_in_def
      split: option.split sum.split orm_error.split)

text \<open>
  C3 as stated fails: the payload carries \<^verbatim>\<open>evaluation\<close> 0 and \<^verbatim>\<open>total_score\<close> 0, and the
  new activity keeps the template's values, no evaluation and a total score of 100.
\<close>

theorem create_from_template_zero_override:
  "r_evaluation lab_request = Some 0 \<and> r_total_score lab_request = Some 0
   \<and> ActivityController_create_from_template school (Some 2) lab_request
     = (Response (FromTemplate ''Activity created from template''
          \<lparr>act_id = 3, title = ''Lab'', description = ''Report'', classroom_id = Some 2,
           team_id = [2], due_date = Some ''2024-03-15'', evaluation = None,
           total_score = Some 100, submission_status = False\<rparr> lab) 201,
        school\<lparr>activities := activities school @
          [\<lparr>act_id = 3, title = ''Lab'', description = ''Report'', classroom_id = Some 2,
            team_id = [2], due_date = Some ''2024-03-15'', evaluation = None,
            total_score = Some 100, submission_status = False\<rparr>]\<rparr>)"
  by (simp add: lab_request_def school_def lab_def quiz_def essay_def
      ActivityTemplate_objects_get_def ActivityController_create_from_template_def
      ClassRoom_objects_get_def Team_objects_filter_pk_in_def create_activity_from_template_def
      truthy_str_def truthy_int_def Activity_save_def new_pk_def Let_def)

text \<open>
  C3, amended: for an existing template and class the request is answered with 201, the new
  activity and the template, and the activity is stored as a new row of the class. Its title
  and description are the template's. Its due date, evaluation and total score are the
  template's where the payload has no such key, and the payload's where the key carries a
  non-empty text, respectively a number other than 0.
\<close>

theorem create_from_template_fields:
  assumes "template_id data = Some k" and "ClassRoom_exists s c"
    and "ActivityTemplate_objects_get s k = Inr tpl"
  shows "\<exists>a. ActivityController_create_from_template s (Some c) data
           = (Response (FromTemplate ''Activity created from template'' a tpl) 201,
              s\<lparr>activities := activities s @ [a]\<rparr>)
         \<and> title a = tpl_title tpl \<and> description a = tpl_description tpl
         \<and> (r_due_date data = None \<longrightarrow> due_date a = tpl_due_date tpl)
         \<and> (r_evaluation data = None \<longrightarrow> evaluation a = tpl_evaluation tpl)
         \<and> (r_total_score data = None \<longrightarrow> total_score a = tpl_total_score tpl)
         \<and> (\<forall>d. r_due_date data = Some d \<and> d \<noteq> [] \<longrightarrow> due_date a = Some d)
         \<and> (\<forall>e. r_evaluation data = Some e \<and> e \<noteq> 0 \<longrightarrow> evaluation a = Some e)
         \<and> (\<forall>n. r_total_score data = Some n \<and> n \<noteq> 0 \<longrightarrow> total_score a = Some n)
         \<and> classroom_id a = Some c"
proof -
  define a1 where "a1 = (if dict_get (team_ids data) [] \<noteq> []
      then (create_activity_from_template s tpl)\<lparr>team_id :=
              filter (\<lambda>t. t \<in> set (dict_get (team_ids data) [])) (teams s)\<rparr>
      else create_activity_from_template s tpl)"
  define a2 where
    "a2 = (if truthy_str (r_due_date data) then a1\<lparr>due_date := r_due_date data\<rparr> else a1)"
  define a3 where
    "a3 = (if truthy_int (r_evaluation data) then a2\<lparr>evaluation := r_evaluation data\<rparr> else a2)"
  define a4 where
    "a4 = (if truthy_int (r_total_score data) then a3\<lparr>total_score := r_total_score data\<rparr> else a3)"
  define a where "a = a4\<lparr>classroom_id := Some c\<rparr>"
  have id1: "act_id a1 = new_pk s"
    by (simp add: a1_def create_activity_from_template_def)
  have ida: "act_id a = new_pk s"
    by (simp add: a_def a4_def a3_def a2_def id1)
  have sav: "Activity_save s a = s\<lparr>activities := activities s @ [a]\<rparr>"
    using ida by (rule Activity_save_new)
  have run: "ActivityController_create_from_template s (Some c) data
      = (Response (FromTemplate ''Activity created from template'' a tpl) 201, Activity_save s a)"
    using assms
    by (simp add: ActivityController_create_from_template_def ClassRoom_objects_get_def
        ClassRoom_exists_def Team_objects_filter_pk_in_def Let_def
        a_def a4_def a3_def a2_def a1_def)
  have f1: "title a1 = tpl_title tpl" "description a1 = tpl_description tpl"
    "due_date a1 = tpl_due_date tpl" "evaluation a1 = tpl_evaluation tpl"
    "total_score a1 = tpl_total_score tpl"
    by (simp_all add: a1_def create_activity_from_template_def)
  have "title a = tpl_title tpl" "description a = tpl_description tpl" "classroom_id a = Some c"
    by (simp_all add: a_def a4_def a3_def a2_def f1)
  moreover have "due_date a
      = (if truthy_str (r_due_date data) then r_due_date data else tpl_due_date tpl)"
    by (simp add: a_def a4_def a3_def a2_def f1)
  moreover have "evaluation a
      = (if truthy_int (r_evaluation data) then r_evaluation data else tpl_evaluation tpl)"
    by (simp add: a_def a4_def a3_def a2_def f1)
  moreover have "total_score a
      = (if truthy_int (r_total_score data) then r_total_score data else tpl_total_score tpl)"
    by (simp add: a_def a4_def a3_def a2_def f1)
  ultimately show ?thesis
    using run sav by (auto simp add: truthy_str_def truthy_int_def)
qed

theorem create_from_template_fields_witness:
  "template_id lab_request = Some 1 \<and> ClassRoom_exists school 2
   \<and> ActivityTemplate_objects_get school 1 = Inr lab
   \<and> ActivityController_create_from_template school (Some 2)
        (lab_request\<lparr>r_evaluation := None, r_total_score := Some 50\<rparr>)
     = (Response (FromTemplate ''Activity created from template''
          \<lparr>act_id = 3, title = ''Lab'', description = ''Report'', classroom_id = Some 2,
           team_id = [2], due_date = Some ''2024-03-15'', evaluation = None,
           total_score = Some 50, submission_status = False\<rparr> lab) 201,
        school\<lparr>activities := activities school @
          [\<lparr>act_id = 3, title = ''Lab'', description = ''Report'', classroom_id = Some 2,
            team_id = [2], due_date = Some ''2024-03-15'', evaluation = None,
            total_score = Some 50, submission_status = False\<rparr>]\<rparr>)"
  using create_from_template_fields
    [of "lab_request\<lparr>r_evaluation := None, r_total_score := Some 50\<rparr>" 1 school 2 lab]
  by (simp add: lab_request_def school_def lab_def quiz_def essay_def ClassRoom_exists_def
      ActivityTemplate_objects_get_def ActivityController_create_from_template_def
      ClassRoom_objects_get_def Team_objects_filter_pk_in_def create_activity_from_template_def
      truthy_str_def truthy_int_def Activity_save_def new_pk_def Let_def)

end
